theory Spec2Isabelle
  imports Main "HOL-Library.Word"
begin

section \<open>Values of the JavaScript program\<close>

text \<open>
  The repository holds two revisions of the verification server, the files
  \<^verbatim>\<open>src/unnamed/part_000\<close> (codes live two minutes, the health route retries the SMTP
  handshake) and \<^verbatim>\<open>src/unnamed/part_001\<close> (codes live five minutes, the insert has an
  error callback, the redemption route validates its fields). Both are embedded; a
  definition that belongs to one file only carries the suffix \<open>_000\<close> or \<open>_001\<close>.

  A string is a list of code units below 256, read as the code points U+0000 to U+00FF.
  \<open>String.prototype.toLowerCase\<close> maps A to Z and the Latin-1 capitals U+00C0 to U+00DE
  (the multiplication sign U+00D7 apart) to the code 32 higher and leaves the rest alone.
\<close>

definition toLowerCase_char :: "char \<Rightarrow> char" where
  "toLowerCase_char c =
     (let n = (of_char c :: nat)
      in if (65 \<le> n \<and> n \<le> 90) \<or> (192 \<le> n \<and> n \<le> 222 \<and> n \<noteq> 215)
         then char_of (n + 32) else c)"

definition toLowerCase :: "string \<Rightarrow> string" where
  "toLowerCase s = map toLowerCase_char s"

text \<open>
  \<open>toUpperCase\<close> is applied by the source to the output of \<open>toString('hex')\<close> only,
  whose characters are ASCII; it is modelled on the ASCII letters.
\<close>

definition toUpperCase_char :: "char \<Rightarrow> char" where
  "toUpperCase_char c =
     (let n = (of_char c :: nat)
      in if 97 \<le> n \<and> n \<le> 122 then char_of (n - 32) else c)"

definition toUpperCase :: "string \<Rightarrow> string" where
  "toUpperCase s = map toUpperCase_char s"

text \<open>
  A field of the JSON request body, as the handlers destructure it: \<open>Absent\<close> when the
  key is missing (the variable is \<open>undefined\<close>) or \<open>null\<close>, \<open>Text s\<close> when it holds the
  string \<open>s\<close>. Bodies whose fields hold numbers, booleans, arrays or objects are not
  part of this model.
\<close>

datatype field = Absent | Text string

text \<open>The test \<open>!x\<close>: \<open>undefined\<close>, \<open>null\<close> and the empty string are falsy.\<close>

definition falsy :: "field \<Rightarrow> bool" where
  "falsy x = (case x of Absent \<Rightarrow> True | Text s \<Rightarrow> s = [])"

datatype error = TypeError | SqliteError

text \<open>\<open>x.toLowerCase()\<close>: reading a property of \<open>undefined\<close> throws a TypeError.\<close>

definition toLowerCase_field :: "field \<Rightarrow> error + string" where
  "toLowerCase_field x = (case x of Absent \<Rightarrow> Inl TypeError | Text s \<Rightarrow> Inr (toLowerCase s))"

text \<open>The template substitution \<open>${x}\<close>.\<close>

definition interpolate :: "field \<Rightarrow> string" where
  "interpolate x = (case x of Absent \<Rightarrow> ''undefined'' | Text s \<Rightarrow> s)"

section \<open>generateCode\<close>

text \<open>
  \<open>crypto.randomBytes(n)\<close> reads \<open>n\<close> bytes of entropy; the source of entropy is an
  input of the model. \<open>toString('hex')\<close> writes each byte as two lower-case digits.
\<close>

definition randomBytes :: "(nat \<Rightarrow> 8 word) \<Rightarrow> nat \<Rightarrow> 8 word list" where
  "randomBytes src n = map src [0..<n]"

definition hex_digit :: "nat \<Rightarrow> char" where
  "hex_digit n = ''0123456789abcdef'' ! n"

definition hex_of_byte :: "8 word \<Rightarrow> string" where
  "hex_of_byte b = [hex_digit (unat b div 16), hex_digit (unat b mod 16)]"

definition toString_hex :: "8 word list \<Rightarrow> string" where
  "toString_hex bs = concat (map hex_of_byte bs)"

definition generateCode :: "(nat \<Rightarrow> 8 word) \<Rightarrow> string" where
  "generateCode src = toUpperCase (toString_hex (randomBytes src 3))"

definition upper_hex :: "char \<Rightarrow> bool" where
  "upper_hex c = (c \<in> set ''0123456789ABCDEF'')"

section \<open>The table verification_codes, the mail transport and the environment\<close>

text \<open>
  A row of \<^verbatim>\<open>verification_codes\<close>. The columns \<open>company\<close> and \<open>username\<close> hold the
  value bound to their parameter; \<open>email\<close> and \<open>code\<close> are always bound to strings.
\<close>

record row =
  row_id :: nat
  company :: field
  username :: field
  email :: string
  code :: string
  created_at :: int

text \<open>
  A message handed to \<open>transporter.sendMail\<close>. The static markup of the HTML templates
  is not reproduced: \<open>html\<close> lists the values substituted into the template, in the
  order they appear.
\<close>

record mail =
  mail_from :: string
  mail_to :: string
  subject :: string
  html :: "string list"

text \<open>
  What the handlers can change: the rows of the table, the last id that
  \<^verbatim>\<open>AUTOINCREMENT\<close> gave out, and the messages handed to the transport.
\<close>

record world =
  rows :: "row list"
  last_id :: nat
  outbox :: "mail list"

text \<open>
  What a request finds: the clock (\<open>Date.now()\<close>, milliseconds), the entropy, the
  address in \<^verbatim>\<open>GMAIL_USER\<close>, and the error each callback of the source receives: of
  the INSERT, of \<open>sendMail\<close>, of the SELECT. The revision \<^verbatim>\<open>part_000\<close> gives its
  INSERT no callback; whether that statement fails is an input all the same, one the
  handler cannot see. So is the failure of the reaper's DELETE, an argument of its own.
\<close>

record env =
  now :: int
  entropy :: "nat \<Rightarrow> 8 word"
  gmail_user :: string
  insert_err :: bool
  mail_err :: bool
  get_err :: bool

text \<open>\<^verbatim>\<open>INSERT INTO verification_codes (...) VALUES (?, ?, ?, ?, ?)\<close>; a failed statement
  writes nothing.\<close>

definition db_insert :: "bool \<Rightarrow> world \<Rightarrow> field \<Rightarrow> field \<Rightarrow> string \<Rightarrow> string \<Rightarrow> int \<Rightarrow> world" where
  "db_insert err w co us em cd t =
     (if err then w
      else w\<lparr>rows := rows w @
                 [\<lparr>row_id = Suc (last_id w), company = co, username = us, email = em,
                   code = cd, created_at = t\<rparr>],
             last_id := Suc (last_id w)\<rparr>)"

text \<open>The comparison \<open>column = ?\<close> of a text column: a parameter bound to
  \<open>undefined\<close> is NULL and equals nothing.\<close>

definition sql_eq :: "string \<Rightarrow> field \<Rightarrow> bool" where
  "sql_eq col p = (case p of Absent \<Rightarrow> False | Text s \<Rightarrow> col = s)"

text \<open>\<^verbatim>\<open>SELECT * FROM verification_codes WHERE email = ? AND code = ? AND created_at > ?\<close>
  through \<open>db.get\<close>: the callback receives the error, or the first row found, if any.\<close>

definition db_get :: "bool \<Rightarrow> world \<Rightarrow> string \<Rightarrow> field \<Rightarrow> int \<Rightarrow> error + row option" where
  "db_get err w e c t =
     (if err then Inl SqliteError
      else Inr (find (\<lambda>r. email r = e \<and> sql_eq (code r) c \<and> created_at r > t) (rows w)))"

text \<open>\<^verbatim>\<open>DELETE FROM verification_codes WHERE created_at < ?\<close> through \<open>db.run\<close>:
  the error of the statement, if it fails, and the table after it. A failed statement
  removes nothing.\<close>

definition db_delete_older :: "bool \<Rightarrow> world \<Rightarrow> int \<Rightarrow> error option \<times> world" where
  "db_delete_older err w t =
     (if err then (Some SqliteError, w)
      else (None, w\<lparr>rows := filter (\<lambda>r. \<not> created_at r < t) (rows w)\<rparr>))"

text \<open>The body of a JSON response: \<open>{message}\<close>, \<open>{valid, message}\<close>, or the health
  report \<open>{status, components: {http, database, smtp}, timestamp}\<close>, its timestamp
  kept as the instant that \<open>toISOString\<close> renders.\<close>

datatype body =
  Message string
  | Verdict bool string
  | Report string string string string int

record response =
  status :: nat
  body :: body

text \<open>A handler answers, or throws before it does (Express then answers for it).\<close>

datatype outcome = Responded response | Threw error

definition json :: "nat \<Rightarrow> body \<Rightarrow> outcome" where
  "json st b = Responded \<lparr>status = st, body = b\<rparr>"

section \<open>The reaper\<close>

text \<open>
  The body of the \<open>setInterval\<close> callback, run at the instant \<open>t\<close>; \<open>err\<close> tells
  whether its DELETE fails. The statement is submitted without a callback and the
  database object has no error listener, so the error in the result is one that nothing
  handles: raised uncaught, it ends the process. The table is the one the tick leaves
  in the database file.
\<close>

definition cleanup_000 :: "bool \<Rightarrow> int \<Rightarrow> world \<Rightarrow> error option \<times> world" where
  "cleanup_000 err t w = (let expiry = t - 2 * 60 * 1000 in db_delete_older err w expiry)"

definition cleanup_001 :: "bool \<Rightarrow> int \<Rightarrow> world \<Rightarrow> error option \<times> world" where
  "cleanup_001 err t w = (let expiry = t - 5 * 60 * 1000 in db_delete_older err w expiry)"

section \<open>POST /request-code\<close>

definition mailOptions_000 :: "env \<Rightarrow> field \<Rightarrow> field \<Rightarrow> string \<Rightarrow> string \<Rightarrow> mail" where
  "mailOptions_000 e co us normalizedEmail cd =
     \<lparr>mail_from = [CHR 0x22] @ interpolate co @ '' Verification'' @ [CHR 0x22] @ '' <''
                   @ gmail_user e @ ''>'',
      mail_to = normalizedEmail,
      subject = interpolate co @ '' | Verification Code'',
      html = [interpolate co, interpolate us, cd]\<rparr>"

definition codeDigits :: "string \<Rightarrow> string" where
  "codeDigits cd = concat (map (\<lambda>c. ''<div>'' @ [c] @ ''</div>'') cd)"

definition mailOptions_001 :: "env \<Rightarrow> field \<Rightarrow> field \<Rightarrow> string \<Rightarrow> string \<Rightarrow> mail" where
  "mailOptions_001 e co us normalizedEmail cd =
     \<lparr>mail_from = [CHR 0x22] @ interpolate co @ '' Verification'' @ [CHR 0x22] @ '' <''
                   @ gmail_user e @ ''>'',
      mail_to = normalizedEmail,
      subject = interpolate co @ '' | Your Verification Code'',
      html = [interpolate co, interpolate us, codeDigits cd]\<rparr>"

text \<open>\<open>transporter.sendMail(mailOptions, callback)\<close>: the message is handed over, and the
  callback answers by the error it receives.\<close>

definition sendMail :: "env \<Rightarrow> world \<Rightarrow> mail \<Rightarrow> outcome \<times> world" where
  "sendMail e w m =
     (let w' = w\<lparr>outbox := outbox w @ [m]\<rparr>
      in if mail_err e then (json 500 (Message ''Email failed to send.''), w')
         else (json 200 (Message ''Verification code sent.''), w'))"

text \<open>\<^verbatim>\<open>part_000\<close>, lines 57 to 95: the INSERT is submitted without a callback and the
  mail is sent whatever becomes of it.\<close>

definition request_code_000 :: "env \<Rightarrow> world \<Rightarrow> field \<Rightarrow> field \<Rightarrow> field \<Rightarrow> outcome \<times> world" where
  "request_code_000 e w co us em =
     (if falsy co \<or> falsy us \<or> falsy em
      then (json 400 (Message ''Company, username, and email are required.''), w)
      else case toLowerCase_field em of
        Inl x \<Rightarrow> (Threw x, w)
      | Inr normalizedEmail \<Rightarrow>
          (let cd = generateCode (entropy e);
               createdAt = now e;
               w1 = db_insert (insert_err e) w co us normalizedEmail cd createdAt
           in sendMail e w1 (mailOptions_000 e co us normalizedEmail cd)))"

text \<open>\<^verbatim>\<open>part_001\<close>, lines 61 to 187: the mail is sent from the callback of the INSERT,
  once the statement has succeeded.\<close>

definition request_code_001 :: "env \<Rightarrow> world \<Rightarrow> field \<Rightarrow> field \<Rightarrow> field \<Rightarrow> outcome \<times> world" where
  "request_code_001 e w co us em =
     (if falsy co \<or> falsy us \<or> falsy em
      then (json 400 (Message ''Company, username, and email are required.''), w)
      else case toLowerCase_field em of
        Inl x \<Rightarrow> (Threw x, w)
      | Inr normalizedEmail \<Rightarrow>
          (let cd = generateCode (entropy e);
               createdAt = now e
           in if insert_err e then (json 500 (Message ''Failed to store code.''), w)
              else sendMail e (db_insert False w co us normalizedEmail cd createdAt)
                     (mailOptions_001 e co us normalizedEmail cd)))"

section \<open>POST /verify-code\<close>

text \<open>\<^verbatim>\<open>part_000\<close>, lines 98 to 118. The fields are not validated: \<open>email.toLowerCase()\<close>
  is the first use of \<open>email\<close>.\<close>

definition verify_code_000 :: "env \<Rightarrow> world \<Rightarrow> field \<Rightarrow> field \<Rightarrow> outcome \<times> world" where
  "verify_code_000 e w em cd =
     (case toLowerCase_field em of
        Inl x \<Rightarrow> (Threw x, w)
      | Inr lowered \<Rightarrow>
          (case db_get (get_err e) w lowered cd (now e - 2 * 60 * 1000) of
             Inl err \<Rightarrow> (json 500 (Verdict False ''Database error.''), w)
           | Inr (Some r) \<Rightarrow> (json 200 (Verdict True ''Code is valid.''), w)
           | Inr None \<Rightarrow> (json 400 (Verdict False ''Invalid or expired code.''), w)))"

text \<open>The two messages of \<^verbatim>\<open>part_001\<close> that open with an emoji (U+2705, U+274C) have
  no rendering in code units below 256; the emoji is written as its code point's name.\<close>

definition check_mark :: string where
  "check_mark = ''U+2705''"

definition cross_mark :: string where
  "cross_mark = ''U+274C''"

text \<open>\<^verbatim>\<open>part_001\<close>, lines 190 to 216.\<close>

definition verify_code_001 :: "env \<Rightarrow> world \<Rightarrow> field \<Rightarrow> field \<Rightarrow> outcome \<times> world" where
  "verify_code_001 e w em cd =
     (let expiry = now e - 5 * 60 * 1000
      in if falsy em \<or> falsy cd
         then (json 400 (Verdict False ''Email and code are required.''), w)
         else case toLowerCase_field em of
           Inl x \<Rightarrow> (Threw x, w)
         | Inr lowered \<Rightarrow>
             (case db_get (get_err e) w lowered cd expiry of
                Inl err \<Rightarrow> (json 500 (Verdict False ''Database error.''), w)
              | Inr (Some r) \<Rightarrow> (json 200 (Verdict True (check_mark @ '' Code is valid!'')), w)
              | Inr None \<Rightarrow>
                  (json 400 (Verdict False (cross_mark @ '' Invalid or expired code.'')), w)))"

section \<open>GET /health\<close>

text \<open>
  The retry helper of \<^verbatim>\<open>part_000\<close>. \<open>verify k\<close> tells whether the handshake number
  \<open>k\<close> (from 0) of \<open>transporter.verify\<close> succeeds. The probe counts the handshakes made
  and adds up the delays slept between them.
\<close>

record probe =
  calls :: nat
  waited :: int

function attempt :: "(nat \<Rightarrow> bool) \<Rightarrow> int \<Rightarrow> int \<Rightarrow> probe \<Rightarrow> string \<times> probe" where
  "attempt verify delay n p =
     (let success = verify (calls p);
          p1 = p\<lparr>calls := Suc (calls p)\<rparr>
      in if success then (''ok'', p1)
         else if n \<le> 0 then (''error'', p1)
         else attempt verify delay (n - 1) (p1\<lparr>waited := waited p1 + delay\<rparr>))"
  by pat_completeness auto
termination
  by (relation "measure (\<lambda>(verify, delay, n, p). nat n)") auto

declare attempt.simps [simp del]

definition verifySMTPWithRetry :: "(nat \<Rightarrow> bool) \<Rightarrow> int \<Rightarrow> int \<Rightarrow> string \<times> probe" where
  "verifySMTPWithRetry verify retries delay = attempt verify delay retries \<lparr>calls = 0, waited = 0\<rparr>"

text \<open>\<^verbatim>\<open>part_000\<close>, lines 135 to 154. \<open>ping_err\<close> is the error of \<^verbatim>\<open>SELECT 1\<close>.\<close>

definition health_000 :: "bool \<Rightarrow> (nat \<Rightarrow> bool) \<Rightarrow> int \<Rightarrow> outcome" where
  "health_000 ping_err verify t =
     (let dbStatus = (if ping_err then ''error'' else ''ok'');
          smtpStatus = fst (verifySMTPWithRetry verify 3 1000);
          allOk = (dbStatus = ''ok'' \<and> smtpStatus = ''ok'')
      in json (if allOk then 200 else 500)
           (Report (if allOk then ''ok'' else ''error'') ''ok'' dbStatus smtpStatus t))"

text \<open>\<^verbatim>\<open>part_001\<close>, lines 219 to 234: one handshake, no retry.\<close>

definition health_001 :: "bool \<Rightarrow> (nat \<Rightarrow> bool) \<Rightarrow> int \<Rightarrow> outcome" where
  "health_001 ping_err verify t =
     (let dbStatus = (if ping_err then ''error'' else ''ok'');
          smtpStatus = (if verify 0 then ''ok'' else ''error'');
          allOk = (dbStatus = ''ok'' \<and> smtpStatus = ''ok'')
      in json (if allOk then 200 else 500)
           (Report (if allOk then ''ok'' else ''error'') ''ok'' dbStatus smtpStatus t))"

section \<open>Scenarios\<close>

text \<open>
  A run of the service against one pair of request fields: redemptions, each with the
  environment it finds, interleaved with sweeps of the reaper, each at its instant and
  with a DELETE that fails or not. The answers of the redemptions are collected in
  order. After a sweep whose DELETE failed the run goes on from the table that sweep
  left in the database file: the steps that follow are served by the restarted server.
\<close>

datatype step = Redeem env | Sweep bool int

fun run_000 :: "world \<Rightarrow> field \<Rightarrow> field \<Rightarrow> step list \<Rightarrow> outcome list \<times> world" where
  "run_000 w em cd [] = ([], w)"
| "run_000 w em cd (Redeem e # ss) =
     (let (x, w1) = verify_code_000 e w em cd;
          (xs, w2) = run_000 w1 em cd ss
      in (x # xs, w2))"
| "run_000 w em cd (Sweep err t # ss) = run_000 (snd (cleanup_000 err t w)) em cd ss"

fun run_001 :: "world \<Rightarrow> field \<Rightarrow> field \<Rightarrow> step list \<Rightarrow> outcome list \<times> world" where
  "run_001 w em cd [] = ([], w)"
| "run_001 w em cd (Redeem e # ss) =
     (let (x, w1) = verify_code_001 e w em cd;
          (xs, w2) = run_001 w1 em cd ss
      in (x # xs, w2))"
| "run_001 w em cd (Sweep err t # ss) = run_001 (snd (cleanup_001 err t w)) em cd ss"

fun redeems :: "step list \<Rightarrow> env list" where
  "redeems [] = []"
| "redeems (Redeem e # ss) = e # redeems ss"
| "redeems (Sweep err t # ss) = redeems ss"

fun instant :: "step \<Rightarrow> int" where
  "instant (Redeem e) = now e"
| "instant (Sweep err t) = t"

text \<open>Sample values: an environment in which nothing fails, the empty table, and the
  table after one issuance to \<^verbatim>\<open>ALICE@Example.com\<close>.\<close>

definition entropy0 :: "nat \<Rightarrow> 8 word" where
  "entropy0 k = (if k = 0 then 0x0A else if k = 1 then 0x1B else 0xFC)"

definition env0 :: env where
  "env0 = \<lparr>now = 1700000000000, entropy = entropy0, gmail_user = ''mailer@example.com'',
           insert_err = False, mail_err = False, get_err = False\<rparr>"

definition world0 :: world where
  "world0 = \<lparr>rows = [], last_id = 0, outbox = []\<rparr>"

definition row0 :: row where
  "row0 = \<lparr>row_id = 1, company = Text ''Acme'', username = Text ''alice'',
           email = ''alice@example.com'', code = ''0A1BFC'', created_at = 1700000000000\<rparr>"

definition world1 :: world where
  "world1 = \<lparr>rows = [row0], last_id = 1, outbox = []\<rparr>"

text \<open>A second source of entropy, and a row issued long before \<open>row0\<close>.\<close>

definition entropy1 :: "nat \<Rightarrow> 8 word" where
  "entropy1 k = (if k = 0 then 0xDE else if k = 1 then 0xAD else 0x07)"

definition row_old :: row where
  "row_old = \<lparr>row_id = 2, company = Text ''Acme'', username = Text ''bob'',
              email = ''bob@example.com'', code = ''00FF10'', created_at = 1699999000000\<rparr>"

section \<open>Lemmas\<close>

subsection \<open>Strings and codes\<close>

lemma toLowerCase_sample: "toLowerCase ''ALICE@Example.com'' = ''alice@example.com''"
  by code_simp

lemma generateCode_sample: "generateCode entropy0 = ''0A1BFC''"
  by code_simp

lemma generateCode_sample1: "generateCode entropy1 = ''DEAD07''"
  by code_simp

lemma upper_hex_digit_table:
  "\<forall>n \<in> set [0..<16]. upper_hex (toUpperCase_char (hex_digit n))"
  by code_simp

lemma upper_hex_digit: "n < 16 \<Longrightarrow> upper_hex (toUpperCase_char (hex_digit n))"
  using upper_hex_digit_table by simp

lemma upper_hex_byte: "list_all upper_hex (toUpperCase (hex_of_byte b))"
proof -
  have "unat b < 256" using unsigned_less [of b] by simp
  then have "unat b div 16 < 16" by simp
  moreover have "unat b mod 16 < 16" by simp
  ultimately show ?thesis
    by (simp add: toUpperCase_def hex_of_byte_def upper_hex_digit)
qed

lemma toUpperCase_append: "toUpperCase (xs @ ys) = toUpperCase xs @ toUpperCase ys"
  by (simp add: toUpperCase_def)

lemma upper_hex_toString_hex: "list_all upper_hex (toUpperCase (toString_hex bs))"
proof (induction bs)
  case Nil
  show ?case by (simp add: toString_hex_def toUpperCase_def)
next
  case (Cons b bs)
  have "toString_hex (b # bs) = hex_of_byte b @ toString_hex bs"
    by (simp add: toString_hex_def)
  with Cons show ?case
    by (simp add: toUpperCase_append upper_hex_byte)
qed

lemma length_toString_hex: "length (toString_hex bs) = 2 * length bs"
  by (induction bs) (simp_all add: toString_hex_def hex_of_byte_def)

lemma length_generateCode: "length (generateCode src) = 6"
  by (simp add: generateCode_def toUpperCase_def length_toString_hex randomBytes_def)

lemma upper_hex_generateCode: "list_all upper_hex (generateCode src)"
  by (simp add: generateCode_def upper_hex_toString_hex)

subsection \<open>The lookup\<close>

lemma db_get_Text:
  "db_get err w e (Text c) t =
     (if err then Inl SqliteError
      else Inr (find (\<lambda>r. email r = e \<and> code r = c \<and> created_at r > t) (rows w)))"
  by (simp add: db_get_def sql_eq_def)

lemma case_find:
  "(case find P xs of None \<Rightarrow> x | Some r \<Rightarrow> y) = (if (\<exists>r \<in> set xs. P r) then y else x)"
proof (cases "find P xs")
  case None
  then have "\<not> (\<exists>r \<in> set xs. P r)" by (auto simp: find_None_iff)
  with None show ?thesis by simp
next
  case (Some r)
  then have "r \<in> set xs \<and> P r" by (auto simp: find_Some_iff)
  with Some show ?thesis by auto
qed

lemma verify_code_000_Text:
  "verify_code_000 e w (Text a) (Text c) =
     ((if get_err e then json 500 (Verdict False ''Database error.'')
       else if (\<exists>r \<in> set (rows w). email r = toLowerCase a \<and> code r = c
                  \<and> created_at r > now e - 2 * 60 * 1000)
            then json 200 (Verdict True ''Code is valid.'')
            else json 400 (Verdict False ''Invalid or expired code.'')), w)"
  by (auto simp add: verify_code_000_def toLowerCase_field_def db_get_Text case_find)

lemma verify_code_001_Text:
  "verify_code_001 e w (Text a) (Text c) =
     ((if a = [] \<or> c = [] then json 400 (Verdict False ''Email and code are required.'')
       else if get_err e then json 500 (Verdict False ''Database error.'')
       else if (\<exists>r \<in> set (rows w). email r = toLowerCase a \<and> code r = c
                  \<and> created_at r > now e - 5 * 60 * 1000)
            then json 200 (Verdict True (check_mark @ '' Code is valid!''))
            else json 400 (Verdict False (cross_mark @ '' Invalid or expired code.''))), w)"
  by (auto simp add: verify_code_001_def toLowerCase_field_def db_get_Text case_find falsy_def)

lemma verify_code_000_frame: "snd (verify_code_000 e w em cd) = w"
  by (simp add: verify_code_000_def split: sum.splits option.splits)

lemma verify_code_001_frame: "snd (verify_code_001 e w em cd) = w"
  by (simp add: verify_code_001_def Let_def split: sum.splits option.splits)

lemma verify_code_000_hit:
  assumes "r \<in> set (rows w)" "email r = toLowerCase a" "\<not> get_err e"
    and "now e - created_at r < 2 * 60 * 1000"
  shows "verify_code_000 e w (Text a) (Text (code r)) = (json 200 (Verdict True ''Code is valid.''), w)"
proof -
  have "\<exists>x \<in> set (rows w). email x = toLowerCase a \<and> code x = code r
          \<and> created_at x > now e - 2 * 60 * 1000"
    using assms by (intro bexI [of _ r]) simp_all
  then show ?thesis using assms(3) by (simp add: verify_code_000_Text)
qed

lemma verify_code_001_hit:
  assumes "r \<in> set (rows w)" "email r = toLowerCase a" "\<not> get_err e"
    and "now e - created_at r < 5 * 60 * 1000" and "a \<noteq> []" "code r \<noteq> []"
  shows "verify_code_001 e w (Text a) (Text (code r)) =
           (json 200 (Verdict True (check_mark @ '' Code is valid!'')), w)"
proof -
  have "\<exists>x \<in> set (rows w). email x = toLowerCase a \<and> code x = code r
          \<and> created_at x > now e - 5 * 60 * 1000"
    using assms by (intro bexI [of _ r]) simp_all
  then show ?thesis using assms(3,5,6) by (simp add: verify_code_001_Text)
qed

lemma verify_code_000_answer:
  assumes "r \<in> set (rows w)" "email r = toLowerCase a"
    and "now e - created_at r < 2 * 60 * 1000"
  shows "verify_code_000 e w (Text a) (Text (code r)) =
           ((if get_err e then json 500 (Verdict False ''Database error.'')
             else json 200 (Verdict True ''Code is valid.'')), w)"
proof -
  have "\<exists>x \<in> set (rows w). email x = toLowerCase a \<and> code x = code r
          \<and> created_at x > now e - 2 * 60 * 1000"
    using assms by (intro bexI [of _ r]) simp_all
  then show ?thesis by (simp add: verify_code_000_Text)
qed

lemma verify_code_001_answer:
  assumes "r \<in> set (rows w)" "email r = toLowerCase a"
    and "now e - created_at r < 5 * 60 * 1000" and "a \<noteq> []" "code r \<noteq> []"
  shows "verify_code_001 e w (Text a) (Text (code r)) =
           ((if get_err e then json 500 (Verdict False ''Database error.'')
             else json 200 (Verdict True (check_mark @ '' Code is valid!''))), w)"
proof -
  have "\<exists>x \<in> set (rows w). email x = toLowerCase a \<and> code x = code r
          \<and> created_at x > now e - 5 * 60 * 1000"
    using assms by (intro bexI [of _ r]) simp_all
  then show ?thesis using assms(4,5) by (simp add: verify_code_001_Text)
qed

lemma verify_code_000_miss:
  assumes "\<not> get_err e"
    and "\<not> (\<exists>r \<in> set (rows w). email r = toLowerCase a \<and> code r = c
                 \<and> created_at r > now e - 2 * 60 * 1000)"
  shows "fst (verify_code_000 e w (Text a) (Text c)) =
           json 400 (Verdict False ''Invalid or expired code.'')"
  using assms by (simp only: verify_code_000_Text fst_conv if_False)

lemma verify_code_001_miss:
  assumes "\<not> get_err e" "a \<noteq> []" "c \<noteq> []"
    and "\<not> (\<exists>r \<in> set (rows w). email r = toLowerCase a \<and> code r = c
                 \<and> created_at r > now e - 5 * 60 * 1000)"
  shows "fst (verify_code_001 e w (Text a) (Text c)) =
           json 400 (Verdict False (cross_mark @ '' Invalid or expired code.''))"
  using assms by (simp only: verify_code_001_Text fst_conv if_False simp_thms)

lemma verify_code_000_missing_code:
  "verify_code_000 e w (Text a) Absent =
     ((if get_err e then json 500 (Verdict False ''Database error.'')
       else json 400 (Verdict False ''Invalid or expired code.'')), w)"
  by (simp add: verify_code_000_def toLowerCase_field_def db_get_def sql_eq_def case_find)

subsection \<open>Validation\<close>

lemma request_code_rejects_missing:
  "falsy co \<or> falsy us \<or> falsy em \<Longrightarrow>
   request_code_000 e w co us em =
     (json 400 (Message ''Company, username, and email are required.''), w)
   \<and> request_code_001 e w co us em =
     (json 400 (Message ''Company, username, and email are required.''), w)"
  by (simp add: request_code_000_def request_code_001_def)

lemma verify_code_001_rejects_missing:
  "falsy em \<or> falsy cd \<Longrightarrow>
   verify_code_001 e w em cd = (json 400 (Verdict False ''Email and code are required.''), w)"
  by (simp add: verify_code_001_def)

subsection \<open>Issuance\<close>

lemma request_code_000_rows:
  assumes "\<not> falsy co" "\<not> falsy us" "\<not> falsy (Text a)" "\<not> insert_err e"
  shows "rows (snd (request_code_000 e w co us (Text a))) =
           rows w @ [\<lparr>row_id = Suc (last_id w), company = co, username = us,
                      email = toLowerCase a, code = generateCode (entropy e),
                      created_at = now e\<rparr>]"
  using assms
  by (simp add: request_code_000_def sendMail_def db_insert_def toLowerCase_field_def Let_def)

lemma request_code_001_rows:
  assumes "\<not> falsy co" "\<not> falsy us" "\<not> falsy (Text a)" "\<not> insert_err e"
  shows "rows (snd (request_code_001 e w co us (Text a))) =
           rows w @ [\<lparr>row_id = Suc (last_id w), company = co, username = us,
                      email = toLowerCase a, code = generateCode (entropy e),
                      created_at = now e\<rparr>]"
  using assms
  by (simp add: request_code_001_def sendMail_def db_insert_def toLowerCase_field_def Let_def)

lemma request_code_000_mail_fails:
  assumes "\<not> falsy co" "\<not> falsy us" "\<not> falsy (Text a)" "mail_err e"
  shows "fst (request_code_000 e w co us (Text a)) = json 500 (Message ''Email failed to send.'')"
  using assms
  by (simp add: request_code_000_def sendMail_def toLowerCase_field_def Let_def)

lemma request_code_001_mail_fails:
  assumes "\<not> falsy co" "\<not> falsy us" "\<not> falsy (Text a)" "\<not> insert_err e" "mail_err e"
  shows "fst (request_code_001 e w co us (Text a)) = json 500 (Message ''Email failed to send.'')"
  using assms
  by (simp add: request_code_001_def sendMail_def toLowerCase_field_def Let_def)

lemma generateCode_not_empty: "generateCode src \<noteq> []"
  using length_generateCode [of src] by auto

lemma request_code_000_response:
  "fst (request_code_000 e w co us em) =
     (if falsy co \<or> falsy us \<or> falsy em
      then json 400 (Message ''Company, username, and email are required.'')
      else if mail_err e then json 500 (Message ''Email failed to send.'')
      else json 200 (Message ''Verification code sent.''))"
  by (cases em) (simp_all add: request_code_000_def sendMail_def toLowerCase_field_def Let_def falsy_def)

lemma request_code_001_response:
  "fst (request_code_001 e w co us em) =
     (if falsy co \<or> falsy us \<or> falsy em
      then json 400 (Message ''Company, username, and email are required.'')
      else if insert_err e then json 500 (Message ''Failed to store code.'')
      else if mail_err e then json 500 (Message ''Email failed to send.'')
      else json 200 (Message ''Verification code sent.''))"
  by (cases em) (simp_all add: request_code_001_def sendMail_def toLowerCase_field_def Let_def falsy_def)

lemma request_code_000_outbox:
  "\<not> falsy co \<Longrightarrow> \<not> falsy us \<Longrightarrow> \<not> falsy (Text a) \<Longrightarrow>
   outbox (snd (request_code_000 e w co us (Text a))) =
     outbox w @ [mailOptions_000 e co us (toLowerCase a) (generateCode (entropy e))]"
  by (simp add: request_code_000_def sendMail_def db_insert_def toLowerCase_field_def Let_def)

lemma request_code_001_outbox:
  "\<not> falsy co \<Longrightarrow> \<not> falsy us \<Longrightarrow> \<not> falsy (Text a) \<Longrightarrow> \<not> insert_err e \<Longrightarrow>
   outbox (snd (request_code_001 e w co us (Text a))) =
     outbox w @ [mailOptions_001 e co us (toLowerCase a) (generateCode (entropy e))]"
  by (simp add: request_code_001_def sendMail_def db_insert_def toLowerCase_field_def Let_def)

lemma request_code_001_insert_failure:
  "\<not> falsy co \<Longrightarrow> \<not> falsy us \<Longrightarrow> \<not> falsy em \<Longrightarrow> insert_err e \<Longrightarrow>
   request_code_001 e w co us em = (json 500 (Message ''Failed to store code.''), w)"
  by (cases em) (simp_all add: request_code_001_def toLowerCase_field_def Let_def falsy_def)

subsection \<open>The sweep\<close>

lemma db_delete_older_rows:
  "rows (snd (db_delete_older False w t)) = filter (\<lambda>r. t \<le> created_at r) (rows w)"
  by (simp add: db_delete_older_def not_less)

lemma db_delete_older_twice:
  "snd (db_delete_older False (snd (db_delete_older False w t)) t) = snd (db_delete_older False w t)"
  by (simp add: db_delete_older_def)

lemma db_delete_older_failed: "db_delete_older True w t = (Some SqliteError, w)"
  by (simp add: db_delete_older_def)

subsection \<open>Runs of redemptions and sweeps\<close>

lemma cleanup_000_keeps:
  "r \<in> set (rows w) \<Longrightarrow> t - created_at r < 2 * 60 * 1000 \<Longrightarrow>
   r \<in> set (rows (snd (cleanup_000 err t w)))"
  by (simp add: cleanup_000_def db_delete_older_def)

lemma cleanup_001_keeps:
  "r \<in> set (rows w) \<Longrightarrow> t - created_at r < 5 * 60 * 1000 \<Longrightarrow>
   r \<in> set (rows (snd (cleanup_001 err t w)))"
  by (simp add: cleanup_001_def db_delete_older_def)

lemma run_000_answers:
  assumes "r \<in> set (rows w)" "email r = toLowerCase a"
    and "list_all (\<lambda>s. instant s - created_at r < 2 * 60 * 1000) ss"
  shows "fst (run_000 w (Text a) (Text (code r)) ss) =
           map (\<lambda>x. if get_err x then json 500 (Verdict False ''Database error.'')
                     else json 200 (Verdict True ''Code is valid.'')) (redeems ss)
         \<and> r \<in> set (rows (snd (run_000 w (Text a) (Text (code r)) ss)))"
  using assms
proof (induction ss arbitrary: w)
  case Nil
  then show ?case by simp
next
  case (Cons s ss)
  show ?case
  proof (cases s)
    case (Redeem e)
    with Cons.prems have "verify_code_000 e w (Text a) (Text (code r)) =
        ((if get_err e then json 500 (Verdict False ''Database error.'')
          else json 200 (Verdict True ''Code is valid.'')), w)"
      by (intro verify_code_000_answer) simp_all
    moreover have "fst (run_000 w (Text a) (Text (code r)) ss) =
           map (\<lambda>x. if get_err x then json 500 (Verdict False ''Database error.'')
                     else json 200 (Verdict True ''Code is valid.'')) (redeems ss)
         \<and> r \<in> set (rows (snd (run_000 w (Text a) (Text (code r)) ss)))"
      using Cons.prems by (intro Cons.IH) simp_all
    ultimately show ?thesis using Redeem by (simp add: split_beta)
  next
    case (Sweep err t)
    with Cons.prems have "r \<in> set (rows (snd (cleanup_000 err t w)))"
      by (intro cleanup_000_keeps) simp_all
    then have "fst (run_000 (snd (cleanup_000 err t w)) (Text a) (Text (code r)) ss) =
           map (\<lambda>x. if get_err x then json 500 (Verdict False ''Database error.'')
                     else json 200 (Verdict True ''Code is valid.'')) (redeems ss)
         \<and> r \<in> set (rows (snd (run_000 (snd (cleanup_000 err t w)) (Text a) (Text (code r)) ss)))"
      using Cons.prems by (intro Cons.IH) simp_all
    then show ?thesis using Sweep by simp
  qed
qed

lemma run_001_answers:
  assumes "r \<in> set (rows w)" "email r = toLowerCase a" "a \<noteq> []" "code r \<noteq> []"
    and "list_all (\<lambda>s. instant s - created_at r < 5 * 60 * 1000) ss"
  shows "fst (run_001 w (Text a) (Text (code r)) ss) =
           map (\<lambda>x. if get_err x then json 500 (Verdict False ''Database error.'')
                     else json 200 (Verdict True (check_mark @ '' Code is valid!''))) (redeems ss)
         \<and> r \<in> set (rows (snd (run_001 w (Text a) (Text (code r)) ss)))"
  using assms
proof (induction ss arbitrary: w)
  case Nil
  then show ?case by simp
next
  case (Cons s ss)
  show ?case
  proof (cases s)
    case (Redeem e)
    with Cons.prems have "verify_code_001 e w (Text a) (Text (code r)) =
        ((if get_err e then json 500 (Verdict False ''Database error.'')
          else json 200 (Verdict True (check_mark @ '' Code is valid!''))), w)"
      by (intro verify_code_001_answer) simp_all
    moreover have "fst (run_001 w (Text a) (Text (code r)) ss) =
           map (\<lambda>x. if get_err x then json 500 (Verdict False ''Database error.'')
                     else json 200 (Verdict True (check_mark @ '' Code is valid!''))) (redeems ss)
         \<and> r \<in> set (rows (snd (run_001 w (Text a) (Text (code r)) ss)))"
      using Cons.prems by (intro Cons.IH) simp_all
    ultimately show ?thesis using Redeem by (simp add: split_beta)
  next
    case (Sweep err t)
    with Cons.prems have "r \<in> set (rows (snd (cleanup_001 err t w)))"
      by (intro cleanup_001_keeps) simp_all
    then have "fst (run_001 (snd (cleanup_001 err t w)) (Text a) (Text (code r)) ss) =
           map (\<lambda>x. if get_err x then json 500 (Verdict False ''Database error.'')
                     else json 200 (Verdict True (check_mark @ '' Code is valid!''))) (redeems ss)
         \<and> r \<in> set (rows (snd (run_001 (snd (cleanup_001 err t w)) (Text a) (Text (code r)) ss)))"
      using Cons.prems by (intro Cons.IH) simp_all
    then show ?thesis using Sweep by simp
  qed
qed

lemma run_000_frame: "snd (run_000 w em cd (map Redeem es)) = w"
proof (induction es)
  case Nil
  show ?case by simp
next
  case (Cons e es)
  then show ?case
    using verify_code_000_frame [of e w em cd]
    by (cases "verify_code_000 e w em cd") (simp add: split_beta)
qed

lemma run_001_frame: "snd (run_001 w em cd (map Redeem es)) = w"
proof (induction es)
  case Nil
  show ?case by simp
next
  case (Cons e es)
  then show ?case
    using verify_code_001_frame [of e w em cd]
    by (cases "verify_code_001 e w em cd") (simp add: split_beta)
qed

subsection \<open>The retry helper\<close>

lemma attempt_fst:
  "fst (attempt verify delay n p) =
     (if (\<exists>k\<le>nat n. verify (calls p + k)) then ''ok'' else ''error'')"
proof (induction verify delay n p rule: attempt.induct)
  case (1 verify delay n p)
  show ?case
  proof (cases "verify (calls p)")
    case True
    then have "\<exists>k\<le>nat n. verify (calls p + k)" by (intro exI [of _ 0]) simp
    with True show ?thesis by (subst attempt.simps) (simp add: Let_def)
  next
    case False
    show ?thesis
    proof (cases "n \<le> 0")
      case True
      with False have "\<not> (\<exists>k\<le>nat n. verify (calls p + k))" by simp
      with False True show ?thesis by (subst attempt.simps) (simp add: Let_def)
    next
      case pos: False
      have shift: "(\<exists>k\<le>nat n. verify (calls p + k)) = (\<exists>k\<le>nat (n - 1). verify (Suc (calls p) + k))"
      proof
        assume "\<exists>k\<le>nat n. verify (calls p + k)"
        then obtain k where k: "k \<le> nat n" "verify (calls p + k)" by blast
        with False have "k \<noteq> 0" by (cases k) auto
        then obtain k' where "k = Suc k'" by (cases k) auto
        with k pos have "k' \<le> nat (n - 1)" "verify (Suc (calls p) + k')" by auto
        then show "\<exists>k\<le>nat (n - 1). verify (Suc (calls p) + k)" by blast
      next
        assume "\<exists>k\<le>nat (n - 1). verify (Suc (calls p) + k)"
        then obtain k where k: "k \<le> nat (n - 1)" "verify (Suc (calls p) + k)" by blast
        with pos have "Suc k \<le> nat n" "verify (calls p + Suc k)" by auto
        then show "\<exists>k\<le>nat n. verify (calls p + k)" by blast
      qed
      have "fst (attempt verify delay n p) =
              fst (attempt verify delay (n - 1) (p\<lparr>calls := Suc (calls p), waited := waited p + delay\<rparr>))"
        using False pos by (subst attempt.simps) (simp add: Let_def)
      also have "\<dots> = (if (\<exists>k\<le>nat (n - 1). verify (Suc (calls p) + k)) then ''ok'' else ''error'')"
        using "1.IH" [OF refl refl False pos] by simp
      finally show ?thesis by (simp only: shift)
    qed
  qed
qed

lemma attempt_first_success:
  "k \<le> nat n \<Longrightarrow> verify (calls p + k) \<Longrightarrow> \<forall>j<k. \<not> verify (calls p + j) \<Longrightarrow>
   attempt verify delay n p = (''ok'', \<lparr>calls = calls p + k + 1, waited = waited p + delay * int k\<rparr>)"
proof (induction verify delay n p arbitrary: k rule: attempt.induct)
  case (1 verify delay n p)
  show ?case
  proof (cases k)
    case 0
    with "1.prems" show ?thesis by (subst attempt.simps) (simp add: Let_def)
  next
    case (Suc k')
    with "1.prems" have nv: "\<not> verify (calls p)" and pos: "\<not> n \<le> 0" by auto
    let ?p = "p\<lparr>calls := Suc (calls p), waited := waited p + delay\<rparr>"
    have "k' \<le> nat (n - 1)" using Suc "1.prems"(1) by simp
    moreover have "verify (calls ?p + k')" using Suc "1.prems"(2) by simp
    moreover have "\<forall>j<k'. \<not> verify (calls ?p + j)"
    proof (intro allI impI)
      fix j assume "j < k'"
      then have "Suc j < k" using Suc by simp
      with "1.prems"(3) have "\<not> verify (calls p + Suc j)" by blast
      then show "\<not> verify (calls ?p + j)" by simp
    qed
    ultimately have "attempt verify delay (n - 1) ?p =
        (''ok'', \<lparr>calls = calls ?p + k' + 1, waited = waited ?p + delay * int k'\<rparr>)"
      using "1.IH" [OF refl refl nv pos, of k'] by simp
    moreover have "attempt verify delay n p = attempt verify delay (n - 1) ?p"
      using nv pos by (subst attempt.simps) (simp add: Let_def)
    ultimately show ?thesis using Suc by (simp add: algebra_simps)
  qed
qed

lemma attempt_exhausted:
  "0 \<le> n \<Longrightarrow> \<forall>j\<le>nat n. \<not> verify (calls p + j) \<Longrightarrow>
   attempt verify delay n p =
     (''error'', \<lparr>calls = calls p + nat n + 1, waited = waited p + delay * n\<rparr>)"
proof (induction verify delay n p rule: attempt.induct)
  case (1 verify delay n p)
  from "1.prems" have nv: "\<not> verify (calls p)" by force
  show ?case
  proof (cases "n \<le> 0")
    case True
    with "1.prems" have "n = 0" by simp
    with nv show ?thesis by (subst attempt.simps) (simp add: Let_def)
  next
    case pos: False
    let ?p = "p\<lparr>calls := Suc (calls p), waited := waited p + delay\<rparr>"
    have "\<forall>j\<le>nat (n - 1). \<not> verify (calls ?p + j)"
    proof (intro allI impI)
      fix j assume "j \<le> nat (n - 1)"
      then have "Suc j \<le> nat n" using pos by simp
      with "1.prems"(2) have "\<not> verify (calls p + Suc j)" by blast
      then show "\<not> verify (calls ?p + j)" by simp
    qed
    then have "attempt verify delay (n - 1) ?p =
        (''error'', \<lparr>calls = calls ?p + nat (n - 1) + 1, waited = waited ?p + delay * (n - 1)\<rparr>)"
      using "1.IH" [OF refl refl nv pos] pos by simp
    moreover have "attempt verify delay n p = attempt verify delay (n - 1) ?p"
      using nv pos by (subst attempt.simps) (simp add: Let_def)
    moreover have "Suc (nat (n - 1)) = nat n" using pos by simp
    ultimately show ?thesis by (simp add: algebra_simps)
  qed
qed

lemma smtp_status:
  "fst (verifySMTPWithRetry verify 3 1000) = (if (\<exists>k\<le>3. verify k) then ''ok'' else ''error'')"
  by (simp add: verifySMTPWithRetry_def attempt_fst)

lemma health_000_report:
  "health_000 ping_err verify t =
     json (if \<not> ping_err \<and> (\<exists>k\<le>3. verify k) then 200 else 500)
       (Report (if \<not> ping_err \<and> (\<exists>k\<le>3. verify k) then ''ok'' else ''error'') ''ok''
          (if ping_err then ''error'' else ''ok'')
          (if (\<exists>k\<le>3. verify k) then ''ok'' else ''error'') t)"
  by (auto simp add: health_000_def smtp_status Let_def)

lemma health_001_report:
  "health_001 ping_err verify t =
     json (if \<not> ping_err \<and> verify 0 then 200 else 500)
       (Report (if \<not> ping_err \<and> verify 0 then ''ok'' else ''error'') ''ok''
          (if ping_err then ''error'' else ''ok'')
          (if verify 0 then ''ok'' else ''error'') t)"
  by (auto simp add: health_001_def Let_def)

section \<open>The claims\<close>

text \<open>
  C1, as amended. For a redemption request whose email \<open>a\<close> and code \<open>c\<close> are strings:
  when the SELECT fails the answer is HTTP 500 with \<open>valid = false\<close> and the message
  \<^verbatim>\<open>Database error.\<close>; when it does not fail, the answer is Valid (HTTP 200,
  \<open>valid = true\<close>) if and only if the table has a row whose email is \<open>a\<close> in lower case,
  whose code is \<open>c\<close> and whose \<open>created_at\<close> is greater than \<open>now - TTL\<close> (two minutes in
  \<^verbatim>\<open>part_000\<close>, five in \<^verbatim>\<open>part_001\<close>), and Invalid (HTTP 400, \<open>valid = false\<close>)
  otherwise. \<^verbatim>\<open>part_001\<close> answers an empty \<open>a\<close> or \<open>c\<close> with HTTP 400 and
  \<open>valid = false\<close> before any lookup.
\<close>

theorem redeem_verdict:
  "fst (verify_code_000 e w (Text a) (Text c)) =
     (if get_err e then json 500 (Verdict False ''Database error.'')
      else if (\<exists>r \<in> set (rows w). email r = toLowerCase a \<and> code r = c
                 \<and> created_at r > now e - 2 * 60 * 1000)
           then json 200 (Verdict True ''Code is valid.'')
           else json 400 (Verdict False ''Invalid or expired code.''))
   \<and> fst (verify_code_001 e w (Text a) (Text c)) =
     (if a = [] \<or> c = [] then json 400 (Verdict False ''Email and code are required.'')
      else if get_err e then json 500 (Verdict False ''Database error.'')
      else if (\<exists>r \<in> set (rows w). email r = toLowerCase a \<and> code r = c
                 \<and> created_at r > now e - 5 * 60 * 1000)
           then json 200 (Verdict True (check_mark @ '' Code is valid!''))
           else json 400 (Verdict False (cross_mark @ '' Invalid or expired code.'')))"
proof (intro conjI)
  show "fst (verify_code_000 e w (Text a) (Text c)) =
     (if get_err e then json 500 (Verdict False ''Database error.'')
      else if (\<exists>r \<in> set (rows w). email r = toLowerCase a \<and> code r = c
                 \<and> created_at r > now e - 2 * 60 * 1000)
           then json 200 (Verdict True ''Code is valid.'')
           else json 400 (Verdict False ''Invalid or expired code.''))"
    by (simp only: verify_code_000_Text fst_conv)
next
  show "fst (verify_code_001 e w (Text a) (Text c)) =
     (if a = [] \<or> c = [] then json 400 (Verdict False ''Email and code are required.'')
      else if get_err e then json 500 (Verdict False ''Database error.'')
      else if (\<exists>r \<in> set (rows w). email r = toLowerCase a \<and> code r = c
                 \<and> created_at r > now e - 5 * 60 * 1000)
           then json 200 (Verdict True (check_mark @ '' Code is valid!''))
           else json 400 (Verdict False (cross_mark @ '' Invalid or expired code.'')))"
    by (simp only: verify_code_001_Text fst_conv)
qed

theorem redeem_verdict_witness:
  "fst (verify_code_000 (env0\<lparr>now := 1700000119999\<rparr>) world1 (Text ''ALICE@Example.com'')
         (Text ''0A1BFC'')) = json 200 (Verdict True ''Code is valid.'')
   \<and> fst (verify_code_000 (env0\<lparr>now := 1700000120000\<rparr>) world1 (Text ''ALICE@Example.com'')
         (Text ''0A1BFC'')) = json 400 (Verdict False ''Invalid or expired code.'')
   \<and> fst (verify_code_000 (env0\<lparr>now := 1700000119999\<rparr>) world1 (Text ''ALICE@Example.com'')
         (Text ''0A1BFD'')) = json 400 (Verdict False ''Invalid or expired code.'')
   \<and> fst (verify_code_001 (env0\<lparr>now := 1700000299999\<rparr>) world1 (Text ''ALICE@Example.com'')
         (Text ''0A1BFC'')) = json 200 (Verdict True (check_mark @ '' Code is valid!''))
   \<and> fst (verify_code_001 (env0\<lparr>now := 1700000300000\<rparr>) world1 (Text ''ALICE@Example.com'')
         (Text ''0A1BFC'')) = json 400 (Verdict False (cross_mark @ '' Invalid or expired code.''))"
  using redeem_verdict [of "env0\<lparr>now := 1700000119999\<rparr>" world1 "''ALICE@Example.com''" "''0A1BFC''"]
    redeem_verdict [of "env0\<lparr>now := 1700000120000\<rparr>" world1 "''ALICE@Example.com''" "''0A1BFC''"]
    redeem_verdict [of "env0\<lparr>now := 1700000119999\<rparr>" world1 "''ALICE@Example.com''" "''0A1BFD''"]
    redeem_verdict [of "env0\<lparr>now := 1700000299999\<rparr>" world1 "''ALICE@Example.com''" "''0A1BFC''"]
    redeem_verdict [of "env0\<lparr>now := 1700000300000\<rparr>" world1 "''ALICE@Example.com''" "''0A1BFC''"]
  by (simp add: env0_def world1_def row0_def toLowerCase_sample)

text \<open>
  C1 as stated fails where the lookup itself fails: the table holds a row that matches
  the request and is within its TTL, yet the answer is neither Valid nor the HTTP 400
  of Invalid; it is HTTP 500.
\<close>

theorem redeem_storage_error_counterexample:
  "rows world1 = [row0]
   \<and> email row0 = toLowerCase ''ALICE@Example.com''
   \<and> code row0 = ''0A1BFC''
   \<and> created_at row0 > now (env0\<lparr>get_err := True\<rparr>) - 2 * 60 * 1000
   \<and> created_at row0 > now (env0\<lparr>get_err := True\<rparr>) - 5 * 60 * 1000
   \<and> fst (verify_code_000 (env0\<lparr>get_err := True\<rparr>) world1 (Text ''ALICE@Example.com'')
         (Text ''0A1BFC'')) = json 500 (Verdict False ''Database error.'')
   \<and> fst (verify_code_001 (env0\<lparr>get_err := True\<rparr>) world1 (Text ''ALICE@Example.com'')
         (Text ''0A1BFC'')) = json 500 (Verdict False ''Database error.'')
   \<and> json 500 (Verdict False ''Database error.'') \<noteq> json 200 (Verdict True ''Code is valid.'')
   \<and> json 500 (Verdict False ''Database error.'') \<noteq> json 400 (Verdict False ''Invalid or expired code.'')"
  by (simp add: verify_code_000_Text verify_code_001_Text env0_def world1_def row0_def
      toLowerCase_sample json_def)

text \<open>
  C2, as amended. A redemption, successful or not, returns the store as it found it, and
  so does any number of redemptions in a row. For a row \<open>r\<close> of the table and the pair (an
  email that is the row's email once in lower case, the row's code): in any run of
  redemptions and reaper sweeps, each at an instant less than the TTL after the row's
  \<open>created_at\<close>, every redemption whose lookup completes answers Valid, every redemption
  whose lookup fails answers HTTP 500 \<^verbatim>\<open>Database error.\<close>, and the row is still in the
  table at the end. (For \<^verbatim>\<open>part_001\<close> the email and the code are not empty, as those of
  an issued row are.)
\<close>

theorem redeem_leaves_store:
  "snd (verify_code_000 e w em cd) = w
   \<and> snd (verify_code_001 e w em cd) = w
   \<and> snd (run_000 w em cd (map Redeem es)) = w
   \<and> snd (run_001 w em cd (map Redeem es)) = w
   \<and> (r \<in> set (rows w) \<and> email r = toLowerCase a
        \<and> list_all (\<lambda>s. instant s - created_at r < 2 * 60 * 1000) ss
      \<longrightarrow> fst (run_000 w (Text a) (Text (code r)) ss) =
             map (\<lambda>x. if get_err x then json 500 (Verdict False ''Database error.'')
                       else json 200 (Verdict True ''Code is valid.'')) (redeems ss)
          \<and> r \<in> set (rows (snd (run_000 w (Text a) (Text (code r)) ss))))
   \<and> (r \<in> set (rows w) \<and> email r = toLowerCase a \<and> a \<noteq> [] \<and> code r \<noteq> []
        \<and> list_all (\<lambda>s. instant s - created_at r < 5 * 60 * 1000) ss
      \<longrightarrow> fst (run_001 w (Text a) (Text (code r)) ss) =
             map (\<lambda>x. if get_err x then json 500 (Verdict False ''Database error.'')
                       else json 200 (Verdict True (check_mark @ '' Code is valid!'')))
               (redeems ss)
          \<and> r \<in> set (rows (snd (run_001 w (Text a) (Text (code r)) ss))))"
proof -
  have frame: "snd (verify_code_000 e w em cd) = w \<and> snd (verify_code_001 e w em cd) = w
      \<and> snd (run_000 w em cd (map Redeem es)) = w \<and> snd (run_001 w em cd (map Redeem es)) = w"
    by (simp add: verify_code_000_frame verify_code_001_frame run_000_frame run_001_frame)
  show ?thesis
    using frame run_000_answers [of r w a ss] run_001_answers [of r w a ss]
    by simp
qed

theorem redeem_leaves_store_witness:
  "row0 \<in> set (rows world1) \<and> email row0 = toLowerCase ''ALICE@Example.com''
   \<and> snd (verify_code_000 env0 world1 (Text ''ALICE@Example.com'') (Text ''0A1BFC'')) = world1
   \<and> snd (verify_code_001 env0 world1 (Text ''ALICE@Example.com'') (Text ''0A1BFC'')) = world1
   \<and> run_000 world1 (Text ''ALICE@Example.com'') (Text ''0A1BFC'')
        [Redeem env0, Sweep False 1700000060000, Redeem (env0\<lparr>get_err := True\<rparr>),
         Sweep True 1700000100000, Redeem (env0\<lparr>now := 1700000119999\<rparr>)] =
       ([json 200 (Verdict True ''Code is valid.''), json 500 (Verdict False ''Database error.''),
         json 200 (Verdict True ''Code is valid.'')], world1)
   \<and> run_001 world1 (Text ''ALICE@Example.com'') (Text ''0A1BFC'')
        [Redeem env0, Sweep False 1700000060000, Redeem (env0\<lparr>get_err := True\<rparr>),
         Sweep True 1700000100000, Redeem (env0\<lparr>now := 1700000299999\<rparr>)] =
       ([json 200 (Verdict True (check_mark @ '' Code is valid!'')),
         json 500 (Verdict False ''Database error.''),
         json 200 (Verdict True (check_mark @ '' Code is valid!''))], world1)"
proof -
  let ?a = "''ALICE@Example.com''"
  let ?s0 = "[Redeem env0, Sweep False 1700000060000, Redeem (env0\<lparr>get_err := True\<rparr>),
              Sweep True 1700000100000, Redeem (env0\<lparr>now := 1700000119999\<rparr>)]"
  let ?s1 = "[Redeem env0, Sweep False 1700000060000, Redeem (env0\<lparr>get_err := True\<rparr>),
              Sweep True 1700000100000, Redeem (env0\<lparr>now := 1700000299999\<rparr>)]"
  have w0: "snd (run_000 world1 (Text ?a) (Text ''0A1BFC'') ?s0) = world1"
    by (simp add: verify_code_000_Text cleanup_000_def db_delete_older_def world1_def row0_def
        env0_def split_beta)
  have w1: "snd (run_001 world1 (Text ?a) (Text ''0A1BFC'') ?s1) = world1"
    by (simp add: verify_code_001_Text cleanup_001_def db_delete_older_def world1_def row0_def
        env0_def split_beta)
  have c: "code row0 = ''0A1BFC''" by (simp add: row0_def)
  have "fst (run_000 world1 (Text ?a) (Text ''0A1BFC'') ?s0) =
          [json 200 (Verdict True ''Code is valid.''), json 500 (Verdict False ''Database error.''),
           json 200 (Verdict True ''Code is valid.'')]"
    using redeem_leaves_store [of env0 world1 "Text ?a" "Text ''0A1BFC''" "[]" row0 ?a ?s0]
    by (simp add: c [symmetric] del: run_000.simps run_001.simps)
       (simp add: world1_def row0_def env0_def toLowerCase_sample)
  moreover have "fst (run_001 world1 (Text ?a) (Text ''0A1BFC'') ?s1) =
          [json 200 (Verdict True (check_mark @ '' Code is valid!'')),
           json 500 (Verdict False ''Database error.''),
           json 200 (Verdict True (check_mark @ '' Code is valid!''))]"
    using redeem_leaves_store [of env0 world1 "Text ?a" "Text ''0A1BFC''" "[]" row0 ?a ?s1]
    by (simp add: c [symmetric] del: run_000.simps run_001.simps)
       (simp add: world1_def row0_def env0_def toLowerCase_sample)
  ultimately show ?thesis
    using w0 w1 redeem_leaves_store [of env0 world1 "Text ?a" "Text ''0A1BFC''" "[]" row0 ?a "[]"]
    by (simp add: prod_eq_iff world1_def row0_def toLowerCase_sample del: run_000.simps run_001.simps)
qed

text \<open>
  C2 as stated fails where a lookup fails: the row is in the table and within its TTL,
  the first redemption is answered Valid and leaves the store as it was, and the second
  redemption of the same pair is answered HTTP 500, not Valid.
\<close>

theorem replay_storage_error_counterexample:
  "row0 \<in> set (rows world1)
   \<and> email row0 = toLowerCase ''ALICE@Example.com''
   \<and> code row0 = ''0A1BFC''
   \<and> now (env0\<lparr>get_err := True\<rparr>) - created_at row0 < 2 * 60 * 1000
   \<and> run_000 world1 (Text ''ALICE@Example.com'') (Text ''0A1BFC'')
        [Redeem env0, Redeem (env0\<lparr>get_err := True\<rparr>)] =
       ([json 200 (Verdict True ''Code is valid.''), json 500 (Verdict False ''Database error.'')],
        world1)
   \<and> run_001 world1 (Text ''ALICE@Example.com'') (Text ''0A1BFC'')
        [Redeem env0, Redeem (env0\<lparr>get_err := True\<rparr>)] =
       ([json 200 (Verdict True (check_mark @ '' Code is valid!'')),
         json 500 (Verdict False ''Database error.'')], world1)
   \<and> json 500 (Verdict False ''Database error.'') \<noteq> json 200 (Verdict True ''Code is valid.'')
   \<and> json 500 (Verdict False ''Database error.'') \<noteq>
       json 200 (Verdict True (check_mark @ '' Code is valid!''))"
  by (simp add: verify_code_000_Text verify_code_001_Text env0_def world1_def row0_def
      toLowerCase_sample json_def split_beta)

text \<open>
  C3. The claim holds of POST /request-code in both revisions and of POST /verify-code in
  \<^verbatim>\<open>part_001\<close> (lemmas \<open>request_code_rejects_missing\<close> and
  \<open>verify_code_001_rejects_missing\<close>). The handler of \<^verbatim>\<open>part_000\<close> has no such check:
  with the email missing, \<open>email.toLowerCase()\<close> throws a TypeError and the handler sends
  no HTTP 400. The store is left as it was.
\<close>

theorem verify_code_000_missing_email_throws:
  "verify_code_000 e w Absent cd = (Threw TypeError, w)"
  by (simp add: verify_code_000_def toLowerCase_field_def)

text \<open>
  C4, as amended. For a valid issuance request whose INSERT succeeds and whose mail
  delivery fails, in either revision: the answer is HTTP 500 \<^verbatim>\<open>Email failed to send.\<close>
  and the row stays in the table. In any later run of redemptions with the same email
  and the generated code and of reaper sweeps, each less than the TTL after the
  issuance, every redemption whose lookup completes answers Valid, every redemption
  whose lookup fails answers HTTP 500 \<^verbatim>\<open>Database error.\<close>, and the row is still in the
  table at the end.
\<close>

theorem delivery_failure_keeps_record:
  assumes "\<not> falsy co" "\<not> falsy us" "\<not> falsy (Text a)" "\<not> insert_err e" "mail_err e"
  shows "fst (request_code_000 e w co us (Text a)) = json 500 (Message ''Email failed to send.'')
       \<and> rows (snd (request_code_000 e w co us (Text a))) =
           rows w @ [\<lparr>row_id = Suc (last_id w), company = co, username = us,
                      email = toLowerCase a, code = generateCode (entropy e),
                      created_at = now e\<rparr>]
       \<and> (list_all (\<lambda>s. instant s - now e < 2 * 60 * 1000) ss \<longrightarrow>
            fst (run_000 (snd (request_code_000 e w co us (Text a))) (Text a)
                   (Text (generateCode (entropy e))) ss) =
              map (\<lambda>x. if get_err x then json 500 (Verdict False ''Database error.'')
                        else json 200 (Verdict True ''Code is valid.'')) (redeems ss)
          \<and> \<lparr>row_id = Suc (last_id w), company = co, username = us,
               email = toLowerCase a, code = generateCode (entropy e), created_at = now e\<rparr>
             \<in> set (rows (snd (run_000 (snd (request_code_000 e w co us (Text a))) (Text a)
                                  (Text (generateCode (entropy e))) ss))))
       \<and> fst (request_code_001 e w co us (Text a)) = json 500 (Message ''Email failed to send.'')
       \<and> rows (snd (request_code_001 e w co us (Text a))) =
           rows w @ [\<lparr>row_id = Suc (last_id w), company = co, username = us,
                      email = toLowerCase a, code = generateCode (entropy e),
                      created_at = now e\<rparr>]
       \<and> (list_all (\<lambda>s. instant s - now e < 5 * 60 * 1000) ss \<longrightarrow>
            fst (run_001 (snd (request_code_001 e w co us (Text a))) (Text a)
                   (Text (generateCode (entropy e))) ss) =
              map (\<lambda>x. if get_err x then json 500 (Verdict False ''Database error.'')
                        else json 200 (Verdict True (check_mark @ '' Code is valid!'')))
                (redeems ss)
          \<and> \<lparr>row_id = Suc (last_id w), company = co, username = us,
               email = toLowerCase a, code = generateCode (entropy e), created_at = now e\<rparr>
             \<in> set (rows (snd (run_001 (snd (request_code_001 e w co us (Text a))) (Text a)
                                  (Text (generateCode (entropy e))) ss))))"
proof -
  let ?r = "\<lparr>row_id = Suc (last_id w), company = co, username = us,
             email = toLowerCase a, code = generateCode (entropy e), created_at = now e\<rparr>"
  let ?w0 = "snd (request_code_000 e w co us (Text a))"
  let ?w1 = "snd (request_code_001 e w co us (Text a))"
  have r0: "rows ?w0 = rows w @ [?r]"
    using assms(1-4) by (rule request_code_000_rows)
  have r1: "rows ?w1 = rows w @ [?r]"
    using assms(1-4) by (rule request_code_001_rows)
  have a: "a \<noteq> []" using assms(3) by (simp add: falsy_def)
  have v0: "fst (run_000 ?w0 (Text a) (Text (generateCode (entropy e))) ss) =
              map (\<lambda>x. if get_err x then json 500 (Verdict False ''Database error.'')
                        else json 200 (Verdict True ''Code is valid.'')) (redeems ss)
          \<and> ?r \<in> set (rows (snd (run_000 ?w0 (Text a) (Text (generateCode (entropy e))) ss)))"
    if "list_all (\<lambda>s. instant s - now e < 2 * 60 * 1000) ss"
    using run_000_answers [of ?r ?w0 a ss] r0 that by simp
  have v1: "fst (run_001 ?w1 (Text a) (Text (generateCode (entropy e))) ss) =
              map (\<lambda>x. if get_err x then json 500 (Verdict False ''Database error.'')
                        else json 200 (Verdict True (check_mark @ '' Code is valid!'')))
                (redeems ss)
          \<and> ?r \<in> set (rows (snd (run_001 ?w1 (Text a) (Text (generateCode (entropy e))) ss)))"
    if "list_all (\<lambda>s. instant s - now e < 5 * 60 * 1000) ss"
    using run_001_answers [of ?r ?w1 a ss] r1 that a generateCode_not_empty [of "entropy e"]
    by simp
  show ?thesis
    using r0 r1 v0 v1 request_code_000_mail_fails [OF assms(1-3,5)]
      request_code_001_mail_fails [OF assms(1-5)]
    by simp
qed

theorem delivery_failure_keeps_record_witness:
  "\<not> falsy (Text ''Acme'') \<and> \<not> falsy (Text ''alice'') \<and> \<not> falsy (Text ''ALICE@Example.com'')
   \<and> \<not> insert_err (env0\<lparr>mail_err := True\<rparr>) \<and> mail_err (env0\<lparr>mail_err := True\<rparr>)
   \<and> fst (request_code_000 (env0\<lparr>mail_err := True\<rparr>) world0 (Text ''Acme'') (Text ''alice'')
            (Text ''ALICE@Example.com'')) = json 500 (Message ''Email failed to send.'')
   \<and> rows (snd (request_code_000 (env0\<lparr>mail_err := True\<rparr>) world0 (Text ''Acme'')
            (Text ''alice'') (Text ''ALICE@Example.com''))) = [row0]
   \<and> fst (run_000 (snd (request_code_000 (env0\<lparr>mail_err := True\<rparr>) world0 (Text ''Acme'')
                    (Text ''alice'') (Text ''ALICE@Example.com'')))
            (Text ''ALICE@Example.com'') (Text ''0A1BFC'')
            [Sweep False 1700000060000, Redeem (env0\<lparr>now := 1700000119999\<rparr>)]) =
        [json 200 (Verdict True ''Code is valid.'')]
   \<and> fst (request_code_001 (env0\<lparr>mail_err := True\<rparr>) world0 (Text ''Acme'') (Text ''alice'')
            (Text ''ALICE@Example.com'')) = json 500 (Message ''Email failed to send.'')
   \<and> fst (run_001 (snd (request_code_001 (env0\<lparr>mail_err := True\<rparr>) world0 (Text ''Acme'')
                    (Text ''alice'') (Text ''ALICE@Example.com'')))
            (Text ''ALICE@Example.com'') (Text ''0A1BFC'')
            [Sweep False 1700000060000, Redeem (env0\<lparr>now := 1700000119999\<rparr>)]) =
        [json 200 (Verdict True (check_mark @ '' Code is valid!''))]"
  using delivery_failure_keeps_record [where co = "Text ''Acme''" and us = "Text ''alice''"
      and a = "''ALICE@Example.com''" and e = "env0\<lparr>mail_err := True\<rparr>" and w = world0
      and ss = "[Sweep False 1700000060000, Redeem (env0\<lparr>now := 1700000119999\<rparr>)]"]
  by (simp add: falsy_def env0_def world0_def row0_def toLowerCase_sample generateCode_sample
      del: run_000.simps run_001.simps)

text \<open>
  C4 as stated fails where the later lookup fails: the issuance is answered with the
  delivery error and its row is stored, yet a redemption with that email and code one
  minute later is answered HTTP 500, not Valid.
\<close>

theorem delivery_failure_storage_error_counterexample:
  "fst (request_code_000 (env0\<lparr>mail_err := True\<rparr>) world0 (Text ''Acme'') (Text ''alice'')
          (Text ''ALICE@Example.com'')) = json 500 (Message ''Email failed to send.'')
   \<and> rows (snd (request_code_000 (env0\<lparr>mail_err := True\<rparr>) world0 (Text ''Acme'')
          (Text ''alice'') (Text ''ALICE@Example.com''))) = [row0]
   \<and> code row0 = ''0A1BFC''
   \<and> now (env0\<lparr>now := 1700000060000, get_err := True\<rparr>) - now (env0\<lparr>mail_err := True\<rparr>)
       < 2 * 60 * 1000
   \<and> fst (verify_code_000 (env0\<lparr>now := 1700000060000, get_err := True\<rparr>)
          (snd (request_code_000 (env0\<lparr>mail_err := True\<rparr>) world0 (Text ''Acme'')
                  (Text ''alice'') (Text ''ALICE@Example.com'')))
          (Text ''ALICE@Example.com'') (Text ''0A1BFC'')) =
       json 500 (Verdict False ''Database error.'')
   \<and> fst (request_code_001 (env0\<lparr>mail_err := True\<rparr>) world0 (Text ''Acme'') (Text ''alice'')
          (Text ''ALICE@Example.com'')) = json 500 (Message ''Email failed to send.'')
   \<and> rows (snd (request_code_001 (env0\<lparr>mail_err := True\<rparr>) world0 (Text ''Acme'')
          (Text ''alice'') (Text ''ALICE@Example.com''))) = [row0]
   \<and> fst (verify_code_001 (env0\<lparr>now := 1700000060000, get_err := True\<rparr>)
          (snd (request_code_001 (env0\<lparr>mail_err := True\<rparr>) world0 (Text ''Acme'')
                  (Text ''alice'') (Text ''ALICE@Example.com'')))
          (Text ''ALICE@Example.com'') (Text ''0A1BFC'')) =
       json 500 (Verdict False ''Database error.'')
   \<and> json 500 (Verdict False ''Database error.'') \<noteq> json 200 (Verdict True ''Code is valid.'')
   \<and> json 500 (Verdict False ''Database error.'') \<noteq>
       json 200 (Verdict True (check_mark @ '' Code is valid!''))"
  by (simp add: request_code_000_def request_code_001_def sendMail_def db_insert_def
      toLowerCase_field_def Let_def falsy_def verify_code_000_Text verify_code_001_Text
      env0_def world0_def row0_def toLowerCase_sample generateCode_sample json_def)

text \<open>
  C5, as amended. A reaper tick at the instant \<open>t\<close> submits one DELETE with the cutoff
  \<open>t - TTL\<close>. When the DELETE succeeds the tick keeps, in order, exactly the rows whose
  \<open>created_at\<close> is at least the cutoff; the rows it removes are exactly those with
  \<open>created_at\<close> below the cutoff; a second such sweep with the same cutoff changes
  nothing; the id counter and the outbox are untouched. When the DELETE fails the tick
  removes nothing: the store is as it was. In both revisions, each with its own TTL.
\<close>

theorem reaper_sweep:
  "snd (cleanup_000 True t w) = w
   \<and> rows (snd (cleanup_000 False t w)) =
       filter (\<lambda>r. t - 2 * 60 * 1000 \<le> created_at r) (rows w)
   \<and> set (rows w) - set (rows (snd (cleanup_000 False t w))) =
       {r \<in> set (rows w). created_at r < t - 2 * 60 * 1000}
   \<and> snd (cleanup_000 False t (snd (cleanup_000 False t w))) = snd (cleanup_000 False t w)
   \<and> last_id (snd (cleanup_000 False t w)) = last_id w
   \<and> outbox (snd (cleanup_000 False t w)) = outbox w
   \<and> snd (cleanup_001 True t w) = w
   \<and> rows (snd (cleanup_001 False t w)) =
       filter (\<lambda>r. t - 5 * 60 * 1000 \<le> created_at r) (rows w)
   \<and> set (rows w) - set (rows (snd (cleanup_001 False t w))) =
       {r \<in> set (rows w). created_at r < t - 5 * 60 * 1000}
   \<and> snd (cleanup_001 False t (snd (cleanup_001 False t w))) = snd (cleanup_001 False t w)
   \<and> last_id (snd (cleanup_001 False t w)) = last_id w
   \<and> outbox (snd (cleanup_001 False t w)) = outbox w"
proof -
  have "set (rows w) - set (rows (snd (cleanup_000 False t w))) =
       {r \<in> set (rows w). created_at r < t - 2 * 60 * 1000}"
    by (auto simp add: cleanup_000_def db_delete_older_rows)
  moreover have "set (rows w) - set (rows (snd (cleanup_001 False t w))) =
       {r \<in> set (rows w). created_at r < t - 5 * 60 * 1000}"
    by (auto simp add: cleanup_001_def db_delete_older_rows)
  moreover have "last_id (snd (cleanup_000 False t w)) = last_id w
      \<and> outbox (snd (cleanup_000 False t w)) = outbox w
      \<and> last_id (snd (cleanup_001 False t w)) = last_id w
      \<and> outbox (snd (cleanup_001 False t w)) = outbox w"
    by (simp add: cleanup_000_def cleanup_001_def db_delete_older_def)
  moreover have "snd (cleanup_000 True t w) = w \<and> snd (cleanup_001 True t w) = w"
    by (simp add: cleanup_000_def cleanup_001_def db_delete_older_failed)
  ultimately show ?thesis
    by (simp add: cleanup_000_def cleanup_001_def db_delete_older_rows db_delete_older_twice)
qed

theorem reaper_sweep_witness:
  "rows (snd (cleanup_000 False 1700000120000 (world1\<lparr>rows := [row_old, row0]\<rparr>))) = [row0]
   \<and> rows (snd (cleanup_000 False 1700000120001 (world1\<lparr>rows := [row_old, row0]\<rparr>))) = []
   \<and> rows (snd (cleanup_001 False 1700000300000 (world1\<lparr>rows := [row_old, row0]\<rparr>))) = [row0]
   \<and> snd (cleanup_000 False 1700000120000
            (snd (cleanup_000 False 1700000120000 (world1\<lparr>rows := [row_old, row0]\<rparr>))))
       = snd (cleanup_000 False 1700000120000 (world1\<lparr>rows := [row_old, row0]\<rparr>))
   \<and> snd (cleanup_000 True 1700000120001 (world1\<lparr>rows := [row_old, row0]\<rparr>)) =
       world1\<lparr>rows := [row_old, row0]\<rparr>"
  using reaper_sweep [of 1700000120000 "world1\<lparr>rows := [row_old, row0]\<rparr>"]
    reaper_sweep [of 1700000120001 "world1\<lparr>rows := [row_old, row0]\<rparr>"]
    reaper_sweep [of 1700000300000 "world1\<lparr>rows := [row_old, row0]\<rparr>"]
  by (simp add: world1_def row0_def row_old_def)

text \<open>
  C5 as stated fails on a tick whose DELETE fails: both rows are older than the cutoff,
  and both are still in the table after the tick.
\<close>

theorem reaper_failed_delete_counterexample:
  "created_at row_old < 1700000120001 - 2 * 60 * 1000
   \<and> created_at row0 < 1700000120001 - 2 * 60 * 1000
   \<and> rows (snd (cleanup_000 True 1700000120001 (world1\<lparr>rows := [row_old, row0]\<rparr>))) =
       [row_old, row0]
   \<and> created_at row_old < 1700000300001 - 5 * 60 * 1000
   \<and> created_at row0 < 1700000300001 - 5 * 60 * 1000
   \<and> rows (snd (cleanup_001 True 1700000300001 (world1\<lparr>rows := [row_old, row0]\<rparr>))) =
       [row_old, row0]"
  by (simp add: cleanup_000_def cleanup_001_def db_delete_older_def world1_def row0_def
      row_old_def)

text \<open>
  C6. In \<^verbatim>\<open>part_000\<close>, GET /health answers HTTP 200 with status \<^verbatim>\<open>ok\<close> exactly when
  the storage probe has no error and one of the handshakes 0 to 3 of the transport
  succeeds (the first call and three retries); otherwise it answers HTTP 500 with
  status \<^verbatim>\<open>error\<close>, and the component that failed reads \<^verbatim>\<open>error\<close>. The first handshake
  that succeeds, number \<open>k\<close>, ends the probe after \<open>k + 1\<close> handshakes and \<open>k\<close> delays of
  1000 ms; when all four fail the probe ends after four handshakes and three delays.
\<close>

theorem health_report:
  "health_000 ping_err verify t =
     json (if \<not> ping_err \<and> (\<exists>k\<le>3. verify k) then 200 else 500)
       (Report (if \<not> ping_err \<and> (\<exists>k\<le>3. verify k) then ''ok'' else ''error'') ''ok''
          (if ping_err then ''error'' else ''ok'')
          (if (\<exists>k\<le>3. verify k) then ''ok'' else ''error'') t)
   \<and> (k \<le> 3 \<and> verify k \<and> (\<forall>j<k. \<not> verify j) \<longrightarrow>
        verifySMTPWithRetry verify 3 1000 = (''ok'', \<lparr>calls = Suc k, waited = 1000 * int k\<rparr>))
   \<and> ((\<forall>j\<le>3. \<not> verify j) \<longrightarrow>
        verifySMTPWithRetry verify 3 1000 = (''error'', \<lparr>calls = 4, waited = 3000\<rparr>))"
proof (intro conjI impI)
  show "health_000 ping_err verify t =
     json (if \<not> ping_err \<and> (\<exists>k\<le>3. verify k) then 200 else 500)
       (Report (if \<not> ping_err \<and> (\<exists>k\<le>3. verify k) then ''ok'' else ''error'') ''ok''
          (if ping_err then ''error'' else ''ok'')
          (if (\<exists>k\<le>3. verify k) then ''ok'' else ''error'') t)"
    by (rule health_000_report)
next
  assume "k \<le> 3 \<and> verify k \<and> (\<forall>j<k. \<not> verify j)"
  then show "verifySMTPWithRetry verify 3 1000 = (''ok'', \<lparr>calls = Suc k, waited = 1000 * int k\<rparr>)"
    using attempt_first_success [of k 3 verify "\<lparr>calls = 0, waited = 0\<rparr>" 1000]
    by (simp add: verifySMTPWithRetry_def)
next
  assume "\<forall>j\<le>3. \<not> verify j"
  then show "verifySMTPWithRetry verify 3 1000 = (''error'', \<lparr>calls = 4, waited = 3000\<rparr>)"
    using attempt_exhausted [of 3 verify "\<lparr>calls = 0, waited = 0\<rparr>" 1000]
    by (simp add: verifySMTPWithRetry_def)
qed

theorem health_report_witness:
  "health_000 False (\<lambda>k. k = 2) 1700000000000 =
     json 200 (Report ''ok'' ''ok'' ''ok'' ''ok'' 1700000000000)
   \<and> health_000 False (\<lambda>k. 4 \<le> k) 1700000000000 =
     json 500 (Report ''error'' ''ok'' ''ok'' ''error'' 1700000000000)
   \<and> health_000 True (\<lambda>k. k = 2) 1700000000000 =
     json 500 (Report ''error'' ''ok'' ''error'' ''ok'' 1700000000000)
   \<and> verifySMTPWithRetry (\<lambda>k. k = 2) 3 1000 = (''ok'', \<lparr>calls = 3, waited = 2000\<rparr>)
   \<and> verifySMTPWithRetry (\<lambda>k. 4 \<le> k) 3 1000 = (''error'', \<lparr>calls = 4, waited = 3000\<rparr>)"
proof -
  have a: "\<exists>k\<le>3. k = (2::nat)" by simp
  have b: "\<not> (\<exists>k\<le>3. (4::nat) \<le> k)" by simp
  have c: "\<forall>j<2. j \<noteq> (2::nat)" by simp
  have d: "\<forall>j\<le>3. \<not> (4::nat) \<le> j" by simp
  show ?thesis
    using health_report [of False "\<lambda>k. k = 2" 1700000000000 2]
      health_report [of False "\<lambda>k. 4 \<le> k" 1700000000000 0]
      health_report [of True "\<lambda>k. k = 2" 1700000000000 2]
      a b c d
    by simp
qed

text \<open>
  C7. The claim holds of \<^verbatim>\<open>part_001\<close> (lemma \<open>request_code_001_insert_failure\<close>).
  In \<^verbatim>\<open>part_000\<close> the INSERT has no callback: when it fails and the mail goes through,
  the handler answers HTTP 200 \<^verbatim>\<open>Verification code sent.\<close>, with no row stored.
\<close>

theorem request_code_000_ignores_insert_failure:
  "request_code_000 (env0\<lparr>insert_err := True\<rparr>) world0 (Text ''Acme'') (Text ''alice'')
     (Text ''ALICE@Example.com'') =
   (json 200 (Message ''Verification code sent.''),
    world0\<lparr>outbox := [mailOptions_000 env0 (Text ''Acme'') (Text ''alice'') ''alice@example.com''
                        ''0A1BFC'']\<rparr>)"
  by (simp add: request_code_000_def sendMail_def db_insert_def toLowerCase_field_def Let_def
      falsy_def env0_def world0_def toLowerCase_sample generateCode_sample mailOptions_000_def)

text \<open>
  C8. For every valid issuance request (company, username and email present and not
  empty) whose INSERT succeeds, in either revision, the table gains exactly one row; its
  email is the request's email in lower case, and its code, the value of
  \<open>generateCode\<close>, has six characters, each an upper-case hexadecimal digit.
\<close>

theorem issue_persists_normalised:
  assumes "\<not> falsy co" "\<not> falsy us" "\<not> falsy (Text a)" "\<not> insert_err e"
  shows "rows (snd (request_code_000 e w co us (Text a))) =
           rows w @ [\<lparr>row_id = Suc (last_id w), company = co, username = us,
                      email = toLowerCase a, code = generateCode (entropy e),
                      created_at = now e\<rparr>]
       \<and> rows (snd (request_code_001 e w co us (Text a))) =
           rows w @ [\<lparr>row_id = Suc (last_id w), company = co, username = us,
                      email = toLowerCase a, code = generateCode (entropy e),
                      created_at = now e\<rparr>]
       \<and> length (generateCode (entropy e)) = 6
       \<and> list_all upper_hex (generateCode (entropy e))"
  using assms request_code_000_rows [OF assms] request_code_001_rows [OF assms]
  by (simp add: length_generateCode upper_hex_generateCode)

theorem issue_persists_normalised_witness:
  "\<not> falsy (Text ''Acme'') \<and> \<not> falsy (Text ''alice'') \<and> \<not> falsy (Text ''ALICE@Example.com'')
   \<and> \<not> insert_err env0
   \<and> rows (snd (request_code_000 env0 world0 (Text ''Acme'') (Text ''alice'')
                  (Text ''ALICE@Example.com''))) = [row0]
   \<and> rows (snd (request_code_001 env0 world0 (Text ''Acme'') (Text ''alice'')
                  (Text ''ALICE@Example.com''))) = [row0]
   \<and> length (code row0) = 6 \<and> list_all upper_hex (code row0)"
  using issue_persists_normalised [of "Text ''Acme''" "Text ''alice''" "''ALICE@Example.com''" env0 world0]
  by (simp add: falsy_def env0_def world0_def row0_def toLowerCase_sample generateCode_sample)

text \<open>
  C9. Two redemption requests (email and code present) whose lookups do not fail and
  find no row matching within the TTL get the same answer, whatever the stores, the
  instants and the reason: HTTP 400, \<open>valid = false\<close>, and the one message
  \<^verbatim>\<open>Invalid or expired code.\<close> of the revision.
\<close>

theorem failed_redemptions_alike:
  assumes "\<not> get_err e1" "\<not> get_err e2"
  shows "(\<not> (\<exists>r \<in> set (rows w1). email r = toLowerCase a1 \<and> code r = c1
                 \<and> created_at r > now e1 - 2 * 60 * 1000)
          \<and> \<not> (\<exists>r \<in> set (rows w2). email r = toLowerCase a2 \<and> code r = c2
                 \<and> created_at r > now e2 - 2 * 60 * 1000)
          \<longrightarrow> fst (verify_code_000 e1 w1 (Text a1) (Text c1)) =
                json 400 (Verdict False ''Invalid or expired code.'')
              \<and> fst (verify_code_000 e2 w2 (Text a2) (Text c2)) =
                fst (verify_code_000 e1 w1 (Text a1) (Text c1)))
       \<and> (a1 \<noteq> [] \<and> c1 \<noteq> [] \<and> a2 \<noteq> [] \<and> c2 \<noteq> []
          \<and> \<not> (\<exists>r \<in> set (rows w1). email r = toLowerCase a1 \<and> code r = c1
                 \<and> created_at r > now e1 - 5 * 60 * 1000)
          \<and> \<not> (\<exists>r \<in> set (rows w2). email r = toLowerCase a2 \<and> code r = c2
                 \<and> created_at r > now e2 - 5 * 60 * 1000)
          \<longrightarrow> fst (verify_code_001 e1 w1 (Text a1) (Text c1)) =
                json 400 (Verdict False (cross_mark @ '' Invalid or expired code.''))
              \<and> fst (verify_code_001 e2 w2 (Text a2) (Text c2)) =
                fst (verify_code_001 e1 w1 (Text a1) (Text c1)))"
  using assms verify_code_000_miss [where e = e1 and w = w1 and a = a1 and c = c1]
    verify_code_000_miss [where e = e2 and w = w2 and a = a2 and c = c2]
    verify_code_001_miss [where e = e1 and w = w1 and a = a1 and c = c1]
    verify_code_001_miss [where e = e2 and w = w2 and a = a2 and c = c2]
  by simp

theorem failed_redemptions_alike_witness:
  "\<not> get_err (env0\<lparr>now := 1700000050000\<rparr>) \<and> \<not> get_err (env0\<lparr>now := 1700000400000\<rparr>)
   \<and> fst (verify_code_000 (env0\<lparr>now := 1700000050000\<rparr>) world1 (Text ''alice@example.com'')
            (Text ''FFFFFF'')) = json 400 (Verdict False ''Invalid or expired code.'')
   \<and> fst (verify_code_000 (env0\<lparr>now := 1700000050000\<rparr>) world1 (Text ''carol@example.com'')
            (Text ''0A1BFC'')) = json 400 (Verdict False ''Invalid or expired code.'')
   \<and> fst (verify_code_000 (env0\<lparr>now := 1700000400000\<rparr>) world1 (Text ''alice@example.com'')
            (Text ''0A1BFC'')) = json 400 (Verdict False ''Invalid or expired code.'')
   \<and> fst (verify_code_001 (env0\<lparr>now := 1700000050000\<rparr>) world1 (Text ''alice@example.com'')
            (Text ''FFFFFF'')) = json 400 (Verdict False (cross_mark @ '' Invalid or expired code.''))
   \<and> fst (verify_code_001 (env0\<lparr>now := 1700000400000\<rparr>) world1 (Text ''alice@example.com'')
            (Text ''0A1BFC'')) = json 400 (Verdict False (cross_mark @ '' Invalid or expired code.''))
   \<and> fst (verify_code_001 (env0\<lparr>now := 1700000050000\<rparr>) world0 (Text ''carol@example.com'')
            (Text ''0A1BFC'')) = json 400 (Verdict False (cross_mark @ '' Invalid or expired code.''))"
proof -
  have l: "toLowerCase ''alice@example.com'' = ''alice@example.com''"
    "toLowerCase ''carol@example.com'' = ''carol@example.com''"
    by code_simp+
  show ?thesis
    using failed_redemptions_alike [where ?e1.0 = "env0\<lparr>now := 1700000050000\<rparr>"
        and ?e2.0 = "env0\<lparr>now := 1700000400000\<rparr>" and ?w1.0 = world1 and ?w2.0 = world1
        and ?a1.0 = "''alice@example.com''" and ?c1.0 = "''FFFFFF''"
        and ?a2.0 = "''alice@example.com''" and ?c2.0 = "''0A1BFC''"]
      failed_redemptions_alike [where ?e1.0 = "env0\<lparr>now := 1700000050000\<rparr>"
        and ?e2.0 = "env0\<lparr>now := 1700000050000\<rparr>" and ?w1.0 = world1 and ?w2.0 = world0
        and ?a1.0 = "''carol@example.com''" and ?c1.0 = "''0A1BFC''"
        and ?a2.0 = "''carol@example.com''" and ?c2.0 = "''0A1BFC''"]
    by (simp add: env0_def world0_def world1_def row0_def l)
qed

text \<open>
  C10. The answer of POST /request-code does not depend on the entropy, hence not on the
  code generated from it. When the answer is the success message, the message handed to
  the mail transport is the one that carries the code in its HTML body.
\<close>

theorem issue_response_hides_code:
  "fst (request_code_000 (e\<lparr>entropy := g\<rparr>) w co us em) = fst (request_code_000 e w co us em)
   \<and> fst (request_code_001 (e\<lparr>entropy := g\<rparr>) w co us em) = fst (request_code_001 e w co us em)
   \<and> (fst (request_code_000 e w co us (Text a)) = json 200 (Message ''Verification code sent.'')
        \<longrightarrow> outbox (snd (request_code_000 e w co us (Text a))) =
              outbox w @ [mailOptions_000 e co us (toLowerCase a) (generateCode (entropy e))]
            \<and> html (mailOptions_000 e co us (toLowerCase a) (generateCode (entropy e))) ! 2 =
              generateCode (entropy e))
   \<and> (fst (request_code_001 e w co us (Text a)) = json 200 (Message ''Verification code sent.'')
        \<longrightarrow> outbox (snd (request_code_001 e w co us (Text a))) =
              outbox w @ [mailOptions_001 e co us (toLowerCase a) (generateCode (entropy e))]
            \<and> html (mailOptions_001 e co us (toLowerCase a) (generateCode (entropy e))) ! 2 =
              codeDigits (generateCode (entropy e)))"
proof -
  have m0: "html (mailOptions_000 e co us (toLowerCase a) (generateCode (entropy e))) ! 2 =
              generateCode (entropy e)"
    by (simp add: mailOptions_000_def)
  have m1: "html (mailOptions_001 e co us (toLowerCase a) (generateCode (entropy e))) ! 2 =
              codeDigits (generateCode (entropy e))"
    by (simp add: mailOptions_001_def)
  have o0: "outbox (snd (request_code_000 e w co us (Text a))) =
              outbox w @ [mailOptions_000 e co us (toLowerCase a) (generateCode (entropy e))]"
    if "fst (request_code_000 e w co us (Text a)) = json 200 (Message ''Verification code sent.'')"
  proof -
    from that have "\<not> (falsy co \<or> falsy us \<or> falsy (Text a))"
      by (auto simp add: request_code_000_response json_def split: if_splits)
    then show ?thesis by (simp add: request_code_000_outbox)
  qed
  have o1: "outbox (snd (request_code_001 e w co us (Text a))) =
              outbox w @ [mailOptions_001 e co us (toLowerCase a) (generateCode (entropy e))]"
    if "fst (request_code_001 e w co us (Text a)) = json 200 (Message ''Verification code sent.'')"
  proof -
    from that have "\<not> (falsy co \<or> falsy us \<or> falsy (Text a)) \<and> \<not> insert_err e"
      by (auto simp add: request_code_001_response json_def split: if_splits)
    then show ?thesis by (simp add: request_code_001_outbox)
  qed
  show ?thesis
    using m0 m1 o0 o1 by (simp add: request_code_000_response request_code_001_response)
qed

theorem issue_response_hides_code_witness:
  "generateCode (entropy env0) = ''0A1BFC'' \<and> generateCode (entropy (env0\<lparr>entropy := entropy1\<rparr>)) = ''DEAD07''
   \<and> fst (request_code_000 (env0\<lparr>entropy := entropy1\<rparr>) world0 (Text ''Acme'') (Text ''alice'')
            (Text ''ALICE@Example.com'')) = json 200 (Message ''Verification code sent.'')
   \<and> fst (request_code_000 env0 world0 (Text ''Acme'') (Text ''alice'')
            (Text ''ALICE@Example.com'')) = json 200 (Message ''Verification code sent.'')
   \<and> fst (request_code_001 (env0\<lparr>entropy := entropy1\<rparr>) world0 (Text ''Acme'') (Text ''alice'')
            (Text ''ALICE@Example.com'')) = json 200 (Message ''Verification code sent.'')
   \<and> fst (request_code_001 env0 world0 (Text ''Acme'') (Text ''alice'')
            (Text ''ALICE@Example.com'')) = json 200 (Message ''Verification code sent.'')
   \<and> html (last (outbox (snd (request_code_000 env0 world0 (Text ''Acme'') (Text ''alice'')
            (Text ''ALICE@Example.com''))))) = [''Acme'', ''alice'', ''0A1BFC'']"
  using issue_response_hides_code [where e = env0 and g = entropy1 and w = world0
      and co = "Text ''Acme''" and us = "Text ''alice''" and em = "Text ''ALICE@Example.com''"
      and a = "''ALICE@Example.com''"]
  by (simp add: request_code_000_response request_code_001_response falsy_def env0_def
      generateCode_sample generateCode_sample1 world0_def mailOptions_000_def interpolate_def)

end
